theory Spec2Isabelle
  imports Complex_Main
begin

text \<open>
  A shallow embedding of parts of PyAutoArray: the quadrant and unit conversion of the ACS
  instrument module, the normalization, colorbar and tick objects of the plotting wrap
  layer, the mask constructors, the three transformers, the interferometer simulator and
  the copy-and-modify method of an interferometer dataset. Each function is translated
  from its source; exceptions are values of a sum type, Python's dynamic typing is made
  explicit where the code depends on it, and modules outside these files (NumPy,
  Matplotlib, the configuration, the library's own utility modules) enter as parameters or
  as small models stated where they are introduced. The properties proved follow the
  definitions, subsystem by subsystem.
\<close>

section \<open>Python values, exceptions and strings\<close>

text \<open>
  The exceptions the modelled functions can raise. The first five are the library's own
  (module \<open>autoarray.exc\<close>); the others are Python's built-in exceptions, raised by the
  interpreter on an ill-typed operand, a missing attribute, a missing dictionary key or an
  invalid value. A function that can raise returns \<open>error + 'a\<close>, with \<open>Inl\<close> the exception.
\<close>

datatype error =
    FrameException
  | ArrayException
  | MaskException
  | PlottingException
  | DataException
  | TypeError
  | AttributeError
  | KeyError
  | ValueError

text \<open>
  Dynamically typed Python values, for the arguments whose run-time type the code
  inspects or whose truth value it tests. Python floats are carried as reals: the
  functions below pass them on or compare them, they do not depend on rounding.
\<close>

datatype pyval =
    PyNone
  | PyBool bool
  | PyInt int
  | PyFloat real
  | PyStr string

text \<open>The truth value Python gives a value in \<open>if x\<close>, \<open>not x\<close>, \<open>x and y\<close>.\<close>

fun truthy :: "pyval \<Rightarrow> bool" where
  "truthy PyNone = False"
| "truthy (PyBool b) = b"
| "truthy (PyInt i) = (i \<noteq> 0)"
| "truthy (PyFloat x) = (x \<noteq> 0)"
| "truthy (PyStr s) = (s \<noteq> [])"

text \<open>\<open>v == 0.0\<close> in Python: numbers compare by value across bool, int and float.\<close>

fun py_eq_zero :: "pyval \<Rightarrow> bool" where
  "py_eq_zero (PyBool b) = (\<not> b)"
| "py_eq_zero (PyInt i) = (i = 0)"
| "py_eq_zero (PyFloat x) = (x = 0)"
| "py_eq_zero PyNone = False"
| "py_eq_zero (PyStr s) = False"

text \<open>
  \<open>s in t\<close> for two Python strings is the substring test: \<open>s\<close> occurs in \<open>t\<close> as a
  contiguous run of characters. The empty string occurs in every string.
\<close>

fun py_str_in :: "string \<Rightarrow> string \<Rightarrow> bool" where
  "py_str_in s [] = (s = [])"
| "py_str_in s (c # cs) = (take (length s) (c # cs) = s \<or> py_str_in s cs)"

text \<open>
  \<open>x in "literal"\<close> for an arbitrary left operand: a non-string operand makes the
  interpreter raise \<open>TypeError\<close>.
\<close>

fun py_in :: "pyval \<Rightarrow> string \<Rightarrow> error + bool" where
  "py_in (PyStr s) t = Inr (py_str_in s t)"
| "py_in PyNone t = Inl TypeError"
| "py_in (PyBool b) t = Inl TypeError"
| "py_in (PyInt i) t = Inl TypeError"
| "py_in (PyFloat x) t = Inl TypeError"


section \<open>Instrument subsystem (\<open>autoarray/instruments/acs.py\<close>)\<close>

subsection \<open>\<open>fits_hdu_from_quadrant_letter\<close>\<close>

definition fits_hdu_from_quadrant_letter :: "pyval \<Rightarrow> error + int" where
  "fits_hdu_from_quadrant_letter quadrant_letter =
     (if quadrant_letter = PyStr ''A'' \<or> quadrant_letter = PyStr ''B'' then Inr 1
      else if quadrant_letter = PyStr ''C'' \<or> quadrant_letter = PyStr ''D'' then Inr 4
      else Inl FrameException)"

subsection \<open>\<open>ExposureInfoACS\<close> and \<open>ImageACS.array_converted_to_electrons_from_fits\<close>\<close>

text \<open>
  The fields of \<open>ExposureInfoACS\<close> with the constructor's defaults: every field but
  \<open>bzero\<close> defaults to \<open>None\<close>. The numeric type \<open>'a\<close> is left open; the conversion only
  multiplies and adds.
\<close>

record 'a exposure_info_acs =
  original_units :: pyval
  bscale :: "'a option"
  bzero :: 'a
  exposure_time :: "'a option"
  date_of_observation :: pyval
  time_of_observation :: pyval
  hdu :: pyval

text \<open>
  NumPy broadcasting of a scalar over a two-dimensional array; a \<open>None\<close> operand makes
  the arithmetic raise \<open>TypeError\<close>.
\<close>

definition np_mul_scalar :: "('a::times) list list \<Rightarrow> 'a option \<Rightarrow> error + 'a list list" where
  "np_mul_scalar array k =
     (case k of None \<Rightarrow> Inl TypeError
      | Some c \<Rightarrow> Inr (map (map (\<lambda>x. x * c)) array))"

definition np_add_scalar :: "('a::plus) list list \<Rightarrow> 'a \<Rightarrow> 'a list list" where
  "np_add_scalar array c = map (map (\<lambda>x. x + c)) array"

text \<open>Sequencing of computations that may raise.\<close>

definition bind_err :: "error + 'a \<Rightarrow> ('a \<Rightarrow> error + 'b) \<Rightarrow> error + 'b" where
  "bind_err m f = (case m of Inl e \<Rightarrow> Inl e | Inr x \<Rightarrow> f x)"

text \<open>
  \<open>array_converted_to_electrons_from_fits\<close>. The FITS reader
  \<open>array_2d_util.numpy_array_2d_from_fits\<close> is not part of the sources at hand and is a
  parameter: it maps a path and a header-data-unit to the raw array, or raises. The
  function tests the units with \<open>in\<close>, and returns nothing (Python's \<open>None\<close>, here the
  inner \<open>None\<close>) when neither test succeeds.
\<close>

definition array_converted_to_electrons_from_fits ::
  "(string \<Rightarrow> pyval \<Rightarrow> error + ('a::{times,plus}) list list) \<Rightarrow> string \<Rightarrow> pyval
     \<Rightarrow> 'a exposure_info_acs \<Rightarrow> error + 'a list list option" where
  "array_converted_to_electrons_from_fits numpy_array_2d_from_fits file_path hdu_arg exposure_info =
     bind_err (numpy_array_2d_from_fits file_path hdu_arg) (\<lambda>array.
     bind_err (py_in (original_units exposure_info) ''COUNTS'') (\<lambda>is_counts.
       if is_counts then
         bind_err (np_mul_scalar array (bscale exposure_info)) (\<lambda>scaled.
           Inr (Some (np_add_scalar scaled (bzero exposure_info))))
       else
         bind_err (py_in (original_units exposure_info) ''CPS'') (\<lambda>is_cps.
           if is_cps then
             bind_err (np_mul_scalar array (exposure_time exposure_info)) (\<lambda>timed.
             bind_err (np_mul_scalar timed (bscale exposure_info)) (\<lambda>scaled.
               Inr (Some (np_add_scalar scaled (bzero exposure_info)))))
           else Inr None)))"


section \<open>Plotting subsystem (\<open>autoarray/plot/wrap_mat/wrap_mat.py\<close>)\<close>

text \<open>
  A wrap object's \<open>kwargs\<close> is a dictionary from option names to values. Subscripting a
  dictionary at a missing key raises \<open>KeyError\<close>.
\<close>

type_synonym pydict = "string \<Rightarrow> pyval option"

definition dict_get :: "pydict \<Rightarrow> string \<Rightarrow> error + pyval" where
  "dict_get d k = (case d k of None \<Rightarrow> Inl KeyError | Some v \<Rightarrow> Inr v)"

subsection \<open>\<open>Cmap.norm_from_array\<close>\<close>

text \<open>
  The plotted array is a NumPy array (here its flattened entries) or, as in the unit
  tests, \<open>None\<close>. \<open>array.min()\<close> needs the attribute, and raises \<open>ValueError\<close> on an
  empty array.
\<close>

definition array_min :: "real list option \<Rightarrow> error + pyval" where
  "array_min array =
     (case array of
        None \<Rightarrow> Inl AttributeError
      | Some [] \<Rightarrow> Inl ValueError
      | Some (x # xs) \<Rightarrow> Inr (PyFloat (fold min xs x)))"

definition array_max :: "real list option \<Rightarrow> error + pyval" where
  "array_max array =
     (case array of
        None \<Rightarrow> Inl AttributeError
      | Some [] \<Rightarrow> Inl ValueError
      | Some (x # xs) \<Rightarrow> Inr (PyFloat (fold max xs x)))"

text \<open>
  The three normalization objects of Matplotlib, as the arguments they are built from:
  \<open>vmin\<close>, \<open>vmax\<close> and, for the symmetric logarithm, \<open>linthresh\<close> and \<open>linscale\<close>.
\<close>

datatype mpl_norm =
    Normalize pyval pyval
  | LogNorm pyval pyval
  | SymLogNorm pyval pyval pyval pyval

definition norm_from_array :: "pydict \<Rightarrow> real list option \<Rightarrow> error + mpl_norm" where
  "norm_from_array kwargs array =
     bind_err (dict_get kwargs ''vmin'') (\<lambda>kw_vmin.
     bind_err (if kw_vmin = PyNone then array_min array else Inr kw_vmin) (\<lambda>vmin.
     bind_err (dict_get kwargs ''vmax'') (\<lambda>kw_vmax.
     bind_err (if kw_vmax = PyNone then array_max array else Inr kw_vmax) (\<lambda>vmax.
     bind_err (dict_get kwargs ''norm'') (\<lambda>norm1.
     bind_err (py_in norm1 ''linear'') (\<lambda>is_linear.
       if is_linear then Inr (Normalize vmin vmax)
       else
         bind_err (dict_get kwargs ''norm'') (\<lambda>norm2.
         bind_err (py_in norm2 ''log'') (\<lambda>is_log.
           if is_log then
             Inr (LogNorm (if py_eq_zero vmin then PyFloat (1 / 10000) else vmin) vmax)
           else
             bind_err (dict_get kwargs ''norm'') (\<lambda>norm3.
             bind_err (py_in norm3 ''symmetric_log'') (\<lambda>is_symlog.
               if is_symlog then
                 bind_err (dict_get kwargs ''linthresh'') (\<lambda>linthresh.
                 bind_err (dict_get kwargs ''linscale'') (\<lambda>linscale.
                   Inr (SymLogNorm vmin vmax linthresh linscale)))
               else Inl PlottingException))))))))))"

subsection \<open>\<open>AbstractWrapMat.kwargs_of_method\<close>\<close>




subsection \<open>\<open>Colorbar.set\<close> and \<open>Colorbar.set_with_values\<close>\<close>

record colorbar =
  manual_tick_labels :: "real list option"
  manual_tick_values :: "real list option"
  kwargs :: pydict








subsection \<open>\<open>Units\<close> and \<open>AbstractTicks.tick_values_in_units_from\<close>\<close>

record units =
  use_scaled :: pyval
  conversion_factor :: "real option"
  in_kpc :: pyval

text \<open>
  \<open>np.linspace(start, stop, num)\<close>, \<open>astype("int")\<close> (truncation towards zero) and
  \<open>np.round(x, 2)\<close> (to the nearest hundredth, ties to the even one), over the reals.
\<close>

definition np_linspace :: "real \<Rightarrow> real \<Rightarrow> nat \<Rightarrow> real list" where
  "np_linspace start stop num =
     (if num = 0 then []
      else if num = 1 then [start]
      else map (\<lambda>i. start + real i * ((stop - start) / real (num - 1))) [0..<num])"

definition np_astype_int :: "real \<Rightarrow> int" where
  "np_astype_int x = (if 0 \<le> x then \<lfloor>x\<rfloor> else \<lceil>x\<rceil>)"

definition np_rint :: "real \<Rightarrow> int" where
  "np_rint x =
     (let f = \<lfloor>x\<rfloor> in
      if x - of_int f < 1 / 2 then f
      else if 1 / 2 < x - of_int f then f + 1
      else if even f then f else f + 1)"

definition np_round2 :: "real \<Rightarrow> real" where
  "np_round2 x = of_int (np_rint (x * 100)) / 100"

datatype tick_values = TickFloats "real list" | TickInts "int list"

text \<open>
  \<open>tick_values_in_units_from\<close>, with the object's \<open>manual_values\<close> first. The array is
  used for \<open>array.shape_2d[0]\<close> only and is given by its \<open>shape_2d\<close>, or \<open>None\<close>. The
  function returns nothing (\<open>Inr None\<close>) when \<open>use_defaults\<close> is set.
\<close>

definition tick_values_in_units_from ::
  "real list option \<Rightarrow> (nat \<times> nat) option \<Rightarrow> real \<Rightarrow> real \<Rightarrow> units \<Rightarrow> bool
     \<Rightarrow> error + tick_values option" where
  "tick_values_in_units_from manual_values array min_value max_value un use_defaults =
     (if use_defaults then Inr None
      else if manual_values \<noteq> None then Inr (Some (TickFloats (the manual_values)))
      else if \<not> truthy (use_scaled un) then
        (case array of
           None \<Rightarrow> Inl AttributeError
         | Some shape_2d \<Rightarrow>
             Inr (Some (TickInts (map np_astype_int (np_linspace 0 (real (fst shape_2d)) 5)))))
      else if (truthy (use_scaled un) \<and> conversion_factor un = None) \<or> \<not> truthy (in_kpc un) then
        Inr (Some (TickFloats (map np_round2 (np_linspace min_value max_value 5))))
      else if truthy (use_scaled un) \<and> conversion_factor un \<noteq> None then
        Inr (Some (TickFloats (map np_round2
               (np_linspace (min_value * the (conversion_factor un))
                            (max_value * the (conversion_factor un)) 5))))
      else Inl PlottingException)"


section \<open>Mask subsystem (\<open>autoarray/mask/mask.py\<close>)\<close>

text \<open>
  A boolean NumPy array: its shape and its entries in row-major order.
\<close>

record bool_array =
  shape :: "nat list"
  entries :: "bool list"

text \<open>
  A Python list given as a mask is a nested list of booleans. \<open>np.asarray\<close> turns a
  regular nesting into an array whose shape is the nesting's lengths; a ragged nesting
  gives no boolean array of the listed entries (\<open>None\<close> here).
\<close>

datatype 'a nested = Item 'a | Nested "'a nested list"

fun array_from_nested :: "bool nested \<Rightarrow> bool_array option" where
  "array_from_nested (Item b) = Some \<lparr>shape = [], entries = [b]\<rparr>"
| "array_from_nested (Nested xs) =
     (case map array_from_nested xs of
        [] \<Rightarrow> Some \<lparr>shape = [0], entries = []\<rparr>
      | a # as \<Rightarrow>
          (if a \<noteq> None \<and> list_all (\<lambda>b. b \<noteq> None \<and> map_option shape b = map_option shape a) as
           then Some \<lparr>shape = length xs # shape (the a),
                      entries = concat (map (\<lambda>b. entries (the b)) (a # as))\<rparr>
           else None))"

definition np_asarray_bool :: "bool nested list \<Rightarrow> error + bool_array" where
  "np_asarray_bool xs =
     (case array_from_nested (Nested xs) of None \<Rightarrow> Inl ValueError | Some a \<Rightarrow> Inr a)"

definition np_invert :: "bool_array \<Rightarrow> bool_array" where
  "np_invert a = a\<lparr>entries := map Not (entries a)\<rparr>"

text \<open>
  The \<open>mask\<close> argument of \<open>Mask.manual\<close>: a Python list or a boolean array.
\<close>

datatype mask_input = MaskList "bool nested list" | MaskArray bool_array

text \<open>
  The \<open>pixel_scales\<close> argument: \<open>None\<close>, a number of type \<open>float\<close> or \<open>int\<close>, or a
  tuple of numbers. \<open>float(x)\<close> converts a number to type \<open>float\<close>.
\<close>

datatype number = FloatNum real | IntNum int

datatype scales = NoScales | ScalarScales number | TupleScales "number list"


text \<open>
  A \<open>Mask\<close>: the boolean array with the attributes \<open>Mask.__new__\<close> attaches to it.
\<close>

record mask =
  mask_array :: bool_array
  pixel_scales :: scales
  sub_size :: int
  origin :: "real \<times> real"

definition Mask_new :: "bool_array \<Rightarrow> scales \<Rightarrow> int \<Rightarrow> real \<times> real \<Rightarrow> mask" where
  "Mask_new a ps ss og = \<lparr>mask_array = a, pixel_scales = ps, sub_size = ss, origin = og\<rparr>"

text \<open>
  \<open>Mask.manual\<close>. Only \<open>type(pixel_scales) is float\<close> triggers the broadcast to a pair.
\<close>

definition manual :: "mask_input \<Rightarrow> scales \<Rightarrow> int \<Rightarrow> real \<times> real \<Rightarrow> bool \<Rightarrow> error + mask" where
  "manual mask_arg pixel_scales_arg sub_size_arg origin_arg invert =
     bind_err (case mask_arg of MaskList xs \<Rightarrow> np_asarray_bool xs | MaskArray a \<Rightarrow> Inr a)
       (\<lambda>mask0.
          let mask1 = (if invert then np_invert mask0 else mask0);
              pixel_scales1 =
                (case pixel_scales_arg of
                   ScalarScales (FloatNum s) \<Rightarrow> TupleScales [FloatNum s, FloatNum s]
                 | _ \<Rightarrow> pixel_scales_arg)
          in if length (shape mask1) \<noteq> 2 then Inl MaskException
             else Inr (Mask_new mask1 pixel_scales1 sub_size_arg origin_arg))"








section \<open>Operators subsystem (\<open>autoarray/operators/transformer.py\<close>)\<close>

text \<open>
  An image handed to a transformer: the \<open>shape\<close> of its array, its entries, and its
  \<open>in_1d_binned\<close> view, which the library's \<open>Array\<close> structure has and a plain NumPy array
  has not (\<open>None\<close>: reading the attribute raises \<open>AttributeError\<close>).
\<close>

record 'a image =
  image_shape :: "nat list"
  image_entries :: "'a list"
  in_1d_binned :: "'a list option"

text \<open>
  Modelled from the spec: the routines of \<open>autoarray.util.transformer_util\<close>, which are
  not part of the sources at hand. For the visibility sample at frequency \<open>(u, v)\<close> and
  the pixels \<open>j\<close> at the grid positions \<open>(y, x)\<close> in radians, the real part of the
  transform is the sum of \<open>image_j * cos (2 pi (u x + v y))\<close> and the imaginary part uses
  \<open>- sin\<close>; the preloaded matrices hold the cosine and sine factors, one row per pixel.
\<close>

definition real_visibilities_jit ::
  "real list \<Rightarrow> (real \<times> real) list \<Rightarrow> (real \<times> real) list \<Rightarrow> real list" where
  "real_visibilities_jit image_1d grid_radians uv_wavelengths =
     map (\<lambda>(u, v).
            sum_list (map (\<lambda>(image_j, (y, x)). image_j * cos (2 * pi * (u * x + v * y)))
                        (zip image_1d grid_radians)))
         uv_wavelengths"

definition imag_visibilities_jit ::
  "real list \<Rightarrow> (real \<times> real) list \<Rightarrow> (real \<times> real) list \<Rightarrow> real list" where
  "imag_visibilities_jit image_1d grid_radians uv_wavelengths =
     map (\<lambda>(u, v).
            sum_list (map (\<lambda>(image_j, (y, x)). image_j * (- sin (2 * pi * (u * x + v * y))))
                        (zip image_1d grid_radians)))
         uv_wavelengths"

definition preload_real_transforms_util ::
  "(real \<times> real) list \<Rightarrow> (real \<times> real) list \<Rightarrow> real list list" where
  "preload_real_transforms_util grid_radians uv_wavelengths =
     map (\<lambda>(y, x). map (\<lambda>(u, v). cos (2 * pi * (u * x + v * y))) uv_wavelengths) grid_radians"

definition preload_imag_transforms_util ::
  "(real \<times> real) list \<Rightarrow> (real \<times> real) list \<Rightarrow> real list list" where
  "preload_imag_transforms_util grid_radians uv_wavelengths =
     map (\<lambda>(y, x). map (\<lambda>(u, v). - sin (2 * pi * (u * x + v * y))) uv_wavelengths) grid_radians"

definition visibilities_from_image_via_preload_jit :: "real list \<Rightarrow> real list list \<Rightarrow> real list"
  where
  "visibilities_from_image_via_preload_jit image_1d preloaded =
     map (\<lambda>k. sum_list (map (\<lambda>(image_j, row). image_j * row ! k) (zip image_1d preloaded)))
         [0..<(case preloaded of [] \<Rightarrow> 0 | row # rows \<Rightarrow> length row)]"

subsection \<open>\<open>Transformer\<close> (direct Fourier transform)\<close>

record transformer =
  t_uv_wavelengths :: "(real \<times> real) list"
  t_grid_radians :: "(real \<times> real) list"
  t_preload_transform :: bool
  t_preload_real_transforms :: "real list list"
  t_preload_imag_transforms :: "real list list"

text \<open>
  The constructor; the two preloaded matrices exist only when \<open>preload_transform\<close> is
  set, and are read only then.
\<close>

definition Transformer_init :: "(real \<times> real) list \<Rightarrow> (real \<times> real) list \<Rightarrow> bool \<Rightarrow> transformer"
  where
  "Transformer_init uv_wavelengths grid_radians preload_transform =
     \<lparr>t_uv_wavelengths = uv_wavelengths,
      t_grid_radians = grid_radians,
      t_preload_transform = preload_transform,
      t_preload_real_transforms =
        (if preload_transform then preload_real_transforms_util grid_radians uv_wavelengths
         else []),
      t_preload_imag_transforms =
        (if preload_transform then preload_imag_transforms_util grid_radians uv_wavelengths
         else [])\<rparr>"

definition real_visibilities_from_image :: "transformer \<Rightarrow> real image \<Rightarrow> error + real list" where
  "real_visibilities_from_image self image_arg =
     (case in_1d_binned image_arg of
        None \<Rightarrow> Inl AttributeError
      | Some image_1d \<Rightarrow>
          Inr (if t_preload_transform self then
                 visibilities_from_image_via_preload_jit image_1d (t_preload_real_transforms self)
               else real_visibilities_jit image_1d (t_grid_radians self) (t_uv_wavelengths self)))"

definition imag_visibilities_from_image :: "transformer \<Rightarrow> real image \<Rightarrow> error + real list" where
  "imag_visibilities_from_image self image_arg =
     (case in_1d_binned image_arg of
        None \<Rightarrow> Inl AttributeError
      | Some image_1d \<Rightarrow>
          Inr (if t_preload_transform self then
                 visibilities_from_image_via_preload_jit image_1d (t_preload_imag_transforms self)
               else imag_visibilities_jit image_1d (t_grid_radians self) (t_uv_wavelengths self)))"

text \<open>
  \<open>Transformer.visibilities_from_image\<close>: the real and imaginary parts, stacked into one
  row \<open>(real, imag)\<close> per visibility. The method does not look at the image's shape.
\<close>

definition Transformer_visibilities_from_image ::
  "transformer \<Rightarrow> real image \<Rightarrow> error + (real \<times> real) list" where
  "Transformer_visibilities_from_image self image_arg =
     bind_err (real_visibilities_from_image self image_arg) (\<lambda>real_visibilities.
     bind_err (imag_visibilities_from_image self image_arg) (\<lambda>imag_visibilities.
       Inr (zip real_visibilities imag_visibilities)))"

subsection \<open>\<open>TransformerFFT\<close> and \<open>TransformerNUFFT\<close>\<close>

text \<open>
  Both methods check the image's shape first. What follows the check is numerical code
  of external libraries (NumPy's FFT with SciPy's interpolation; the non-uniform FFT's
  \<open>forward\<close> with the phase shift) and is a parameter: \<open>interpolated_fft\<close> and
  \<open>shifted_forward\<close> map the transformer and the image to the stacked visibilities, or
  raise.
\<close>

definition TransformerFFT_visibilities_from_image ::
  "('t \<Rightarrow> 'a image \<Rightarrow> error + ('v \<times> 'v) list) \<Rightarrow> 't \<Rightarrow> 'a image \<Rightarrow> error + ('v \<times> 'v) list"
  where
  "TransformerFFT_visibilities_from_image interpolated_fft self image_arg =
     (if length (image_shape image_arg) \<noteq> 2 then Inl ArrayException
      else interpolated_fft self image_arg)"

definition TransformerNUFFT_visibilities_from_image ::
  "('t \<Rightarrow> 'a image \<Rightarrow> error + ('v \<times> 'v) list) \<Rightarrow> 't \<Rightarrow> 'a image \<Rightarrow> error + ('v \<times> 'v) list"
  where
  "TransformerNUFFT_visibilities_from_image shifted_forward self image_arg =
     (if length (image_shape image_arg) \<noteq> 2 then Inl ArrayException
      else shifted_forward self image_arg)"


section \<open>Dataset subsystem (\<open>autoarray/dataset/interferometer.py\<close>)\<close>

text \<open>
  An interferometer dataset: the attributes \<open>AbstractInterferometer.__init__\<close> sets, the
  first four through \<open>AbstractDataset.__init__\<close>. The types of the components are left
  open: they are values where a dataset is built, and references into a store where
  datasets are copied and modified.
\<close>

record ('d, 'n, 'u, 'p) interferometer =
  data :: 'd
  noise_map :: 'n
  positions :: "'p option"
  name :: "string option"
  uv_wavelengths :: 'u

subsection \<open>\<open>AbstractSimulatorInterferometer.from_image\<close>\<close>

text \<open>
  A transformer object as the simulator uses it: its \<open>uv_wavelengths\<close> attribute and its
  \<open>visibilities_from_image\<close> method. The simulator holds the transformer class, called
  with \<open>uv_wavelengths\<close> and \<open>real_space_mask\<close> to build the object.
\<close>

record ('u, 'img, 'v) transformer_object =
  object_uv_wavelengths :: 'u
  object_visibilities_from_image :: "'img \<Rightarrow> error + ('v \<times> 'v) list"

record ('u, 'img, 'msk, 'v, 'e) simulator =
  sim_uv_wavelengths :: 'u
  exposure_time_map :: 'e
  background_sky_map :: "'img option"
  transformer_class :: "'u \<Rightarrow> 'msk \<Rightarrow> error + ('u, 'img, 'v) transformer_object"
  noise_sigma :: "'v option"
  noise_if_add_noise_false :: 'v
  noise_seed :: int

text \<open>
  The \<open>Array\<close> structure is not part of the sources at hand. \<open>from_image\<close> uses its
  attributes \<open>mask\<close>, \<open>shape_2d\<close> and \<open>pixel_scales\<close>, the constructor \<open>Array.zeros\<close> and
  the addition of two arrays (which NumPy refuses with \<open>ValueError\<close> when the shapes
  do not fit); they are the fields of this record of operations.
\<close>

record ('img, 'msk, 'ps) array_operations =
  array_mask :: "'img \<Rightarrow> 'msk"
  array_shape_2d :: "'img \<Rightarrow> nat \<times> nat"
  array_pixel_scales :: "'img \<Rightarrow> 'ps"
  array_zeros :: "nat \<times> nat \<Rightarrow> 'ps \<Rightarrow> 'img"
  array_add :: "'img \<Rightarrow> 'img \<Rightarrow> error + 'img"

text \<open>
  Modelled from the spec: \<open>Visibilities.full(fill_value, shape_1d)\<close>, of the module
  \<open>autoarray.structures.visibilities\<close>, which is not part of the sources at hand, builds
  the constant-valued instance: one row \<open>(fill_value, fill_value)\<close> per visibility.
\<close>

definition Visibilities_full :: "'v \<Rightarrow> nat \<Rightarrow> ('v \<times> 'v) list" where
  "Visibilities_full fill_value n = replicate n (fill_value, fill_value)"

text \<open>
  A Python float is a number or the not-a-number value; \<open>np.isnan\<close> tells them apart.
\<close>

datatype float = Num real | NaN

fun float_isnan :: "float \<Rightarrow> bool" where
  "float_isnan NaN = True"
| "float_isnan (Num x) = False"

text \<open>\<open>np.isnan(noise_map).any()\<close>, for the not-a-number test \<open>isnan\<close> of the float type.\<close>

definition any_isnan :: "('v \<Rightarrow> bool) \<Rightarrow> ('v \<times> 'v) list \<Rightarrow> bool" where
  "any_isnan isnan vis = list_ex (\<lambda>(re, im). isnan re \<or> isnan im) vis"

text \<open>
  \<open>from_image\<close>. Besides the array operations, the float type's \<open>isnan\<close> and the random
  routine \<open>preprocess.data_with_gaussian_noise_added\<close> (not part of the sources at hand)
  are parameters.
\<close>

definition from_image ::
  "('img, 'msk, 'ps) array_operations \<Rightarrow> ('v \<Rightarrow> bool)
     \<Rightarrow> (('v \<times> 'v) list \<Rightarrow> 'v \<Rightarrow> int \<Rightarrow> ('v \<times> 'v) list)
     \<Rightarrow> ('u, 'img, 'msk, 'v, 'e) simulator \<Rightarrow> 'img \<Rightarrow> string option
     \<Rightarrow> error + (('v \<times> 'v) list, ('v \<times> 'v) list, 'u, 'p) interferometer" where
  "from_image arrays isnan data_with_gaussian_noise_added self image_arg name_arg =
     bind_err (transformer_class self (sim_uv_wavelengths self) (array_mask arrays image_arg))
       (\<lambda>transformer.
     let background =
           (case background_sky_map self of
              Some sky \<Rightarrow> sky
            | None \<Rightarrow> array_zeros arrays (array_shape_2d arrays image_arg)
                        (array_pixel_scales arrays image_arg))
     in bind_err (array_add arrays image_arg background) (\<lambda>image1.
        bind_err (object_visibilities_from_image transformer image1) (\<lambda>visibilities0.
     let (visibilities, noise) =
           (case noise_sigma self of
              Some sigma \<Rightarrow>
                (let noisy = data_with_gaussian_noise_added visibilities0 sigma (noise_seed self)
                 in (noisy, Visibilities_full sigma (length noisy)))
            | None \<Rightarrow>
                (visibilities0,
                 Visibilities_full (noise_if_add_noise_false self) (length visibilities0)))
     in if any_isnan isnan noise then Inl DataException
        else Inr \<lparr>data = visibilities, noise_map = noise, positions = None,
                  name = name_arg, uv_wavelengths = object_uv_wavelengths transformer\<rparr>)))"

subsection \<open>\<open>AbstractInterferometer.modified_visibilities_from_visibilities\<close>\<close>

text \<open>
  The method copies the dataset with \<open>copy.deepcopy\<close> and rebinds the copy's \<open>data\<close>
  attribute. Whether the copy shares state with the original depends on object identity,
  so objects live in a store: array objects (visibilities, noise map, wavelengths,
  positions) and dataset objects, each addressed by its index; a dataset object holds the
  addresses of its arrays. Allocation appends to the store. Strings are immutable and are
  held by value.
\<close>

type_synonym addr = nat

type_synonym dataset_object = "(addr, addr, addr, addr) interferometer"

record 'a store =
  array_objects :: "'a list list"
  dataset_objects :: "dataset_object list"







text \<open>
  Three relations between stores, to state what a copy leaves alone and what it
  allocates: \<open>store_extends h h'\<close> when every array object of \<open>h\<close> is in \<open>h'\<close> with
  its contents and the dataset objects are the same; \<open>fresh_copy h h' a b\<close> when \<open>b\<close> is
  an array allocated in \<open>h'\<close> but not in \<open>h\<close>, holding what \<open>a\<close> holds in \<open>h\<close>; and
  the invariant of the memo while a dataset of \<open>h0\<close> is copied, every entry mapping
  an array of \<open>h0\<close> to such a copy.
\<close>

definition store_extends :: "'a store \<Rightarrow> 'a store \<Rightarrow> bool" where
  "store_extends h h' =
     (take (length (array_objects h)) (array_objects h') = array_objects h
      \<and> dataset_objects h' = dataset_objects h)"

definition fresh_copy :: "'a store \<Rightarrow> 'a store \<Rightarrow> addr \<Rightarrow> addr \<Rightarrow> bool" where
  "fresh_copy h h' a b =
     (length (array_objects h) \<le> b \<and> b < length (array_objects h')
      \<and> array_objects h' ! b = array_objects h ! a)"

definition memo_sound :: "'a store \<Rightarrow> 'a store \<Rightarrow> (addr \<Rightarrow> addr option) \<Rightarrow> bool" where
  "memo_sound h0 h memo =
     (\<forall>x y. memo x = Some y \<longrightarrow> x < length (array_objects h0) \<and> fresh_copy h0 h x y)"


section \<open>Verified properties\<close>

subsection \<open>Instrument subsystem\<close>

lemma bind_err_simps [simp]:
  "bind_err (Inl e) f = Inl e"
  "bind_err (Inr x) f = f x"
  by (simp_all add: bind_err_def)

lemma py_str_in_self [simp]: "py_str_in s s"
  by (cases s) simp_all

text \<open>
  The recursive test is the substring relation: \<open>s in t\<close> holds exactly when \<open>t\<close> is
  \<open>s\<close> with something before and something after it.
\<close>

lemma take_length_eq_iff: "take (length s) t = s \<longleftrightarrow> (\<exists>q. t = s @ q)"
  by (metis append_eq_conv_conj append_take_drop_id)

lemma py_str_in_iff: "py_str_in s t \<longleftrightarrow> (\<exists>p q. t = p @ s @ q)"
proof (induction t)
  case Nil
  then show ?case by auto
next
  case (Cons c cs)
  have "(\<exists>p q. c # cs = p @ s @ q) \<longleftrightarrow> (\<exists>q. c # cs = s @ q) \<or> (\<exists>p q. cs = p @ s @ q)"
  proof
    assume "\<exists>p q. c # cs = p @ s @ q"
    then obtain p q where pq: "c # cs = p @ s @ q" by blast
    show "(\<exists>q. c # cs = s @ q) \<or> (\<exists>p q. cs = p @ s @ q)"
    proof (cases p)
      case Nil
      then show ?thesis using pq by auto
    next
      case (Cons a p')
      then show ?thesis using pq by auto
    qed
  next
    assume "(\<exists>q. c # cs = s @ q) \<or> (\<exists>p q. cs = p @ s @ q)"
    then show "\<exists>p q. c # cs = p @ s @ q"
    proof
      assume "\<exists>q. c # cs = s @ q"
      then show ?thesis by (metis append_Nil)
    next
      assume "\<exists>p q. cs = p @ s @ q"
      then show ?thesis by (metis append_Cons)
    qed
  qed
  then show ?case
    using Cons.IH take_length_eq_iff [of s "c # cs"] by simp
qed

text \<open>
  For units other than \<open>"COUNTS"\<close> and \<open>"CPS"\<close> (and their substrings) the conversion
  returns nothing.
\<close>

lemma array_converted_to_electrons_other_units:
  "reader file_path h = Inr raw \<Longrightarrow> original_units ei = PyStr ''ELECTRONS'' \<Longrightarrow>
     array_converted_to_electrons_from_fits reader file_path h ei = Inr None"
  by (simp add: array_converted_to_electrons_from_fits_def)

text \<open>
  Claim C5. \<open>fits_hdu_from_quadrant_letter\<close> returns 1 for \<open>"A"\<close> and \<open>"B"\<close>, returns 4
  for \<open>"C"\<close> and \<open>"D"\<close>, raises \<open>FrameException\<close> for every other input, and never
  returns any value other than 1 or 4.
\<close>

theorem fits_hdu_from_quadrant_letter_spec:
  "fits_hdu_from_quadrant_letter (PyStr ''A'') = Inr 1
   \<and> fits_hdu_from_quadrant_letter (PyStr ''B'') = Inr 1
   \<and> fits_hdu_from_quadrant_letter (PyStr ''C'') = Inr 4
   \<and> fits_hdu_from_quadrant_letter (PyStr ''D'') = Inr 4
   \<and> (q \<notin> {PyStr ''A'', PyStr ''B'', PyStr ''C'', PyStr ''D''}
        \<longrightarrow> fits_hdu_from_quadrant_letter q = Inl FrameException)
   \<and> (\<forall>n. fits_hdu_from_quadrant_letter q = Inr n \<longrightarrow> n = 1 \<or> n = 4)"
  by (simp add: fits_hdu_from_quadrant_letter_def)

theorem fits_hdu_from_quadrant_letter_spec_witness:
  "PyStr ''E'' \<notin> {PyStr ''A'', PyStr ''B'', PyStr ''C'', PyStr ''D''}
   \<and> fits_hdu_from_quadrant_letter (PyStr ''E'') = Inl FrameException
   \<and> fits_hdu_from_quadrant_letter (PyStr ''A'') = Inr 1
   \<and> fits_hdu_from_quadrant_letter PyNone = Inl FrameException"
  using fits_hdu_from_quadrant_letter_spec [of "PyStr ''E''"]
        fits_hdu_from_quadrant_letter_spec [of PyNone]
  by simp

text \<open>
  Claim C2. With original units \<open>"COUNTS"\<close> the conversion returns
  \<open>raw * bscale + bzero\<close> elementwise; with \<open>"CPS"\<close> it returns
  \<open>raw * exposure_time * bscale + bzero\<close> elementwise.
\<close>

theorem array_converted_to_electrons_counts_cps:
  fixes raw :: "('a::{times,plus}) list list"
  assumes "reader file_path h = Inr raw"
    and "bscale ei = Some b"
  shows "(original_units ei = PyStr ''COUNTS'' \<longrightarrow>
            array_converted_to_electrons_from_fits reader file_path h ei
              = Inr (Some (map (map (\<lambda>x. x * b + bzero ei)) raw)))
       \<and> (original_units ei = PyStr ''CPS'' \<and> exposure_time ei = Some t \<longrightarrow>
            array_converted_to_electrons_from_fits reader file_path h ei
              = Inr (Some (map (map (\<lambda>x. x * t * b + bzero ei)) raw)))"
  using assms
  by (simp add: array_converted_to_electrons_from_fits_def np_mul_scalar_def
        np_add_scalar_def comp_def)

text \<open>
  The literal samples of the claim: \<open>raw = 10\<close>, \<open>bscale = 2\<close>, \<open>bzero = 1\<close> give 21
  under \<open>"COUNTS"\<close>, and with \<open>exposure_time = 5\<close> give 101 under \<open>"CPS"\<close>.
\<close>

theorem array_converted_to_electrons_counts_cps_witness:
  "array_converted_to_electrons_from_fits (\<lambda>p h. Inr [[10::int]]) ''image.fits'' (PyInt 1)
     \<lparr>original_units = PyStr ''COUNTS'', bscale = Some 2, bzero = 1, exposure_time = Some 5,
      date_of_observation = PyNone, time_of_observation = PyNone, hdu = PyInt 1\<rparr>
     = Inr (Some [[21]])
   \<and> array_converted_to_electrons_from_fits (\<lambda>p h. Inr [[10::int]]) ''image.fits'' (PyInt 1)
     \<lparr>original_units = PyStr ''CPS'', bscale = Some 2, bzero = 1, exposure_time = Some 5,
      date_of_observation = PyNone, time_of_observation = PyNone, hdu = PyInt 1\<rparr>
     = Inr (Some [[101]])"
  using array_converted_to_electrons_counts_cps
          [of "\<lambda>p h. Inr [[10::int]]" "''image.fits''" "PyInt 1" "[[10]]"
              "\<lparr>original_units = PyStr ''COUNTS'', bscale = Some 2, bzero = 1,
                exposure_time = Some 5, date_of_observation = PyNone,
                time_of_observation = PyNone, hdu = PyInt 1\<rparr>" 2 5]
        array_converted_to_electrons_counts_cps
          [of "\<lambda>p h. Inr [[10::int]]" "''image.fits''" "PyInt 1" "[[10]]"
              "\<lparr>original_units = PyStr ''CPS'', bscale = Some 2, bzero = 1,
                exposure_time = Some 5, date_of_observation = PyNone,
                time_of_observation = PyNone, hdu = PyInt 1\<rparr>" 2 5]
  by simp


subsection \<open>Plotting subsystem\<close>

lemma dict_get_simps [simp]:
  "d k = Some v \<Longrightarrow> dict_get d k = Inr v"
  "d k = None \<Longrightarrow> dict_get d k = Inl KeyError"
  by (simp_all add: dict_get_def)

text \<open>
  The three documented names select the three normalizations, and a name such as
  \<open>"sqrt"\<close>, which occurs in none of them, raises \<open>PlottingException\<close>. A zero \<open>vmin\<close>
  is replaced by \<open>1e-4\<close> under \<open>"log"\<close>.
\<close>

lemma norm_from_array_documented_names:
  "norm_from_array [''vmin'' \<mapsto> PyFloat 0, ''vmax'' \<mapsto> PyFloat 1, ''norm'' \<mapsto> PyStr ''linear''] array
     = Inr (Normalize (PyFloat 0) (PyFloat 1))"
  "norm_from_array [''vmin'' \<mapsto> PyFloat 0, ''vmax'' \<mapsto> PyFloat 1, ''norm'' \<mapsto> PyStr ''log''] array
     = Inr (LogNorm (PyFloat (1 / 10000)) (PyFloat 1))"
  "norm_from_array [''vmin'' \<mapsto> PyNone, ''vmax'' \<mapsto> PyNone, ''norm'' \<mapsto> PyStr ''log'']
       (Some [1, 0, 1 / 2])
     = Inr (LogNorm (PyFloat (1 / 10000)) (PyFloat 1))"
  "norm_from_array [''vmin'' \<mapsto> PyFloat 0, ''vmax'' \<mapsto> PyFloat 1, ''norm'' \<mapsto> PyStr ''symmetric_log'',
       ''linthresh'' \<mapsto> PyFloat 2, ''linscale'' \<mapsto> PyFloat 3] array
     = Inr (SymLogNorm (PyFloat 0) (PyFloat 1) (PyFloat 2) (PyFloat 3))"
  "norm_from_array [''vmin'' \<mapsto> PyFloat 0, ''vmax'' \<mapsto> PyFloat 1, ''norm'' \<mapsto> PyStr ''sqrt''] array
     = Inl PlottingException"
  by (simp_all add: norm_from_array_def array_min_def array_max_def)

text \<open>
  With \<open>vmin\<close> and \<open>vmax\<close> given, every name that occurs in none of the three
  documented names raises \<open>PlottingException\<close>.
\<close>

lemma norm_from_array_other_names:
  assumes "kw ''vmin'' = Some vmin" and "vmin \<noteq> PyNone"
    and "kw ''vmax'' = Some vmax" and "vmax \<noteq> PyNone"
    and "kw ''norm'' = Some (PyStr s)"
    and "\<not> py_str_in s ''linear''" and "\<not> py_str_in s ''log''"
    and "\<not> py_str_in s ''symmetric_log''"
  shows "norm_from_array kw array = Inl PlottingException"
  using assms by (simp add: norm_from_array_def)

text \<open>
  Claim C7. \<open>norm_from_array\<close> is claimed to raise \<open>PlottingException\<close> for every
  normalization name other than \<open>"linear"\<close>, \<open>"log"\<close> and \<open>"symmetric_log"\<close>. The code
  tests the name with \<open>in\<close>, the substring test, where the error message it raises
  documents the three names as the only valid ones: the name \<open>"lin"\<close> is none of the
  three, and a linear normalization is returned for it.
\<close>

theorem norm_from_array_accepts_substring:
  "norm_from_array [''vmin'' \<mapsto> PyFloat 0, ''vmax'' \<mapsto> PyFloat 1, ''norm'' \<mapsto> PyStr ''lin''] None
     = Inr (Normalize (PyFloat 0) (PyFloat 1))"
  by (simp add: norm_from_array_def)

text \<open>
  Claim C8, as stated: some units configuration, with the manual tick values absent,
  makes \<open>tick_values_in_units_from\<close> raise \<open>PlottingException\<close>. There is none: the
  conditions of the branches before the final \<open>else\<close> are exhaustive.
\<close>

theorem tick_values_plotting_exception_unreachable:
  "\<not> (\<exists>array min_value max_value un use_defaults.
         tick_values_in_units_from None array min_value max_value un use_defaults
           = Inl PlottingException)"
  by (auto simp add: tick_values_in_units_from_def split: option.splits if_splits)

text \<open>
  Claim C8, amended: for every units configuration (and every other argument),
  \<open>tick_values_in_units_from\<close> never raises \<open>PlottingException\<close>. With the manual values
  absent and \<open>use_defaults\<close> unset it returns the pixel ticks when \<open>use_scaled\<close> is false
  (given an array), else the scaled ticks when there is no conversion factor or \<open>in_kpc\<close>
  is false, else the scaled ticks multiplied by the conversion factor.
\<close>

theorem tick_values_in_units_from_total:
  "tick_values_in_units_from manual_values array min_value max_value un use_defaults
     \<noteq> Inl PlottingException
   \<and> tick_values_in_units_from None (Some shape_2d) min_value max_value un False
     = Inr (Some
         (if \<not> truthy (use_scaled un) then
            TickInts (map np_astype_int (np_linspace 0 (real (fst shape_2d)) 5))
          else if conversion_factor un = None \<or> \<not> truthy (in_kpc un) then
            TickFloats (map np_round2 (np_linspace min_value max_value 5))
          else
            TickFloats (map np_round2
              (np_linspace (min_value * the (conversion_factor un))
                           (max_value * the (conversion_factor un)) 5))))"
  by (auto simp add: tick_values_in_units_from_def split: option.splits)




subsection \<open>Mask subsystem\<close>

lemma manual_array_2d:
  "length (shape a) = 2 \<Longrightarrow>
     manual (MaskArray a) ps k og flip
       = Inr \<lparr>mask_array = (if flip then np_invert a else a),
              pixel_scales = (case ps of
                                ScalarScales (FloatNum s) \<Rightarrow> TupleScales [FloatNum s, FloatNum s]
                              | _ \<Rightarrow> ps),
              sub_size = k, origin = og\<rparr>"
  by (simp add: manual_def Mask_new_def np_invert_def)


text \<open>
  Claim C4. \<open>Mask.manual\<close> with a single float \<open>s\<close> as \<open>pixel_scales\<close> is the same as
  \<open>Mask.manual\<close> with the pair \<open>(s, s)\<close>: the two calls return the same result, and on a
  two-dimensional boolean array that result is the mask with the given entries (inverted
  when asked), \<open>pixel_scales = (s, s)\<close>, and the given \<open>sub_size\<close> and \<open>origin\<close>.
\<close>

theorem manual_float_is_isotropic_pair:
  "manual m (ScalarScales (FloatNum s)) k og flip
     = manual m (TupleScales [FloatNum s, FloatNum s]) k og flip
   \<and> (length (shape a) = 2 \<longrightarrow>
        manual (MaskArray a) (ScalarScales (FloatNum s)) k og flip
          = Inr \<lparr>mask_array = (if flip then np_invert a else a),
                 pixel_scales = TupleScales [FloatNum s, FloatNum s],
                 sub_size = k, origin = og\<rparr>
        \<and> manual (MaskArray a) (TupleScales [FloatNum s, FloatNum s]) k og flip
          = Inr \<lparr>mask_array = (if flip then np_invert a else a),
                 pixel_scales = TupleScales [FloatNum s, FloatNum s],
                 sub_size = k, origin = og\<rparr>)"
  by (simp add: manual_array_2d) (simp add: manual_def)

theorem manual_float_is_isotropic_pair_witness:
  "manual (MaskList [Nested [Item False, Item True], Nested [Item True, Item False]])
       (ScalarScales (FloatNum 2)) 1 (0, 0) False
     = manual (MaskList [Nested [Item False, Item True], Nested [Item True, Item False]])
         (TupleScales [FloatNum 2, FloatNum 2]) 1 (0, 0) False
   \<and> manual (MaskArray \<lparr>shape = [2, 2], entries = [False, True, True, False]\<rparr>)
       (ScalarScales (FloatNum 2)) 1 (0, 0) False
     = Inr \<lparr>mask_array = \<lparr>shape = [2, 2], entries = [False, True, True, False]\<rparr>,
            pixel_scales = TupleScales [FloatNum 2, FloatNum 2], sub_size = 1, origin = (0, 0)\<rparr>"
  using manual_float_is_isotropic_pair
          [of "MaskList [Nested [Item False, Item True], Nested [Item True, Item False]]"
              2 1 "(0, 0)" False "\<lparr>shape = [2, 2], entries = [False, True, True, False]\<rparr>"]
  by simp




subsection \<open>Operators subsystem\<close>

text \<open>
  Claim C1, as stated: each of the three transformers raises \<open>ArrayException\<close> on an
  image that is not two-dimensional. The direct transformer does not: given the library's
  array of two pixels stored as a one-dimensional array, it returns the visibility of the
  zero frequency, the sum of the pixels.
\<close>

theorem Transformer_accepts_image_not_2d:
  "length (image_shape \<lparr>image_shape = [2], image_entries = [1, 2 :: real],
                        in_1d_binned = Some [1, 2]\<rparr>) \<noteq> 2
   \<and> Transformer_visibilities_from_image
       (Transformer_init [(0, 0)] [(1, 0), (0, 1)] True)
       \<lparr>image_shape = [2], image_entries = [1, 2], in_1d_binned = Some [1, 2]\<rparr>
     = Inr [(3, 0)]"
  by (simp add: Transformer_visibilities_from_image_def real_visibilities_from_image_def
        imag_visibilities_from_image_def Transformer_init_def preload_real_transforms_util_def
        preload_imag_transforms_util_def visibilities_from_image_via_preload_jit_def)

text \<open>
  Claim C1, amended: on every image whose array is not two-dimensional, \<open>TransformerFFT\<close>
  and \<open>TransformerNUFFT\<close> raise \<open>ArrayException\<close>. The direct \<open>Transformer\<close> never
  raises \<open>ArrayException\<close>, whatever the shape: it returns the visibilities computed
  from the image's \<open>in_1d_binned\<close> view, one per wavelength sample, and raises
  \<open>AttributeError\<close> on an image without that view.
\<close>

theorem transformers_on_image_not_2d:
  "(length (image_shape img) \<noteq> 2 \<longrightarrow>
      TransformerFFT_visibilities_from_image interpolated_fft fft img = Inl ArrayException
      \<and> TransformerNUFFT_visibilities_from_image shifted_forward nufft img = Inl ArrayException)
   \<and> Transformer_visibilities_from_image dft img' \<noteq> Inl ArrayException
   \<and> (in_1d_binned img' = None \<longrightarrow>
        Transformer_visibilities_from_image dft img' = Inl AttributeError)
   \<and> (in_1d_binned img' \<noteq> None \<longrightarrow>
        (\<exists>vis. Transformer_visibilities_from_image dft img' = Inr vis))"
  by (cases "in_1d_binned img'")
     (simp_all add: TransformerFFT_visibilities_from_image_def
        TransformerNUFFT_visibilities_from_image_def Transformer_visibilities_from_image_def
        real_visibilities_from_image_def imag_visibilities_from_image_def)

theorem transformers_on_image_not_2d_witness:
  "TransformerFFT_visibilities_from_image (\<lambda>t i. Inr [(1 :: real, 0)]) ()
       \<lparr>image_shape = [2], image_entries = [1, 2 :: real], in_1d_binned = Some [1, 2]\<rparr>
     = Inl ArrayException
   \<and> TransformerNUFFT_visibilities_from_image (\<lambda>t i. Inr [(1 :: real, 0)]) ()
       \<lparr>image_shape = [2], image_entries = [1, 2 :: real], in_1d_binned = Some [1, 2]\<rparr>
     = Inl ArrayException
   \<and> Transformer_visibilities_from_image (Transformer_init [(0, 0)] [(1, 0), (0, 1)] True)
       \<lparr>image_shape = [2, 1, 1], image_entries = [1, 2], in_1d_binned = None\<rparr>
     = Inl AttributeError"
  using transformers_on_image_not_2d
          [of "\<lparr>image_shape = [2], image_entries = [1, 2 :: real], in_1d_binned = Some [1, 2]\<rparr>"
              "\<lambda>t i. Inr [(1 :: real, 0)]" "()" "\<lambda>t i. Inr [(1 :: real, 0)]" "()"
              "Transformer_init [(0, 0)] [(1, 0), (0, 1)] True"
              "\<lparr>image_shape = [2, 1, 1], image_entries = [1, 2], in_1d_binned = None\<rparr>"]
  by simp


subsection \<open>Dataset subsystem: the simulator\<close>

lemma any_isnan_full:
  "any_isnan isnan (Visibilities_full x n) = (n \<noteq> 0 \<and> isnan x)"
  by (induction n) (auto simp add: any_isnan_def Visibilities_full_def)

text \<open>
  Claim C3, as stated: for every image, \<open>from_image\<close> with \<open>noise_sigma = None\<close> returns
  an interferometer dataset. It does not when \<open>noise_if_add_noise_false\<close> is
  not-a-number: the noise map is filled with it, and the check of the noise map that
  closes the method raises \<open>DataException\<close>. Here the image has two pixels and the
  transformer class returns one visibility, the sum of the pixels.
\<close>

theorem from_image_nan_noise_raises:
  "from_image
     \<lparr>array_mask = (\<lambda>img. ()), array_shape_2d = (\<lambda>img. (1, length img)),
      array_pixel_scales = (\<lambda>img. (1 :: real, 1 :: real)),
      array_zeros = (\<lambda>(rows, cols) ps. replicate (rows * cols) (0 :: real)),
      array_add = (\<lambda>a b. if length a = length b then Inr (map (\<lambda>(x, y). x + y) (zip a b))
                           else Inl ValueError)\<rparr>
     float_isnan
     (\<lambda>vis sigma seed. vis)
     \<lparr>sim_uv_wavelengths = [(0 :: real, 0 :: real)], exposure_time_map = (),
      background_sky_map = None,
      transformer_class = (\<lambda>uv msk. Inr \<lparr>object_uv_wavelengths = uv,
         object_visibilities_from_image = (\<lambda>img. Inr (map (\<lambda>w. (Num (sum_list img), Num 0)) uv))\<rparr>),
      noise_sigma = None, noise_if_add_noise_false = NaN, noise_seed = - 1\<rparr>
     [1, 2] None
   = (Inl DataException
       :: error + ((float \<times> float) list, (float \<times> float) list, (real \<times> real) list, unit) interferometer)"
  by (simp add: from_image_def any_isnan_full Visibilities_full_def any_isnan_def)

text \<open>
  Claim C3, amended: when \<open>noise_sigma\<close> is \<open>None\<close>, the transformer class builds a
  transformer, the transformer returns visibilities for \<open>image + background_sky_map\<close> (the
  background being the zero map of the image's shape and pixel scales when none is
  supplied), and \<open>noise_if_add_noise_false\<close> is a number (or there is no visibility at
  all), \<open>from_image\<close> returns the dataset of exactly those visibilities, with the noise map
  uniformly \<open>noise_if_add_noise_false\<close>, one row per visibility, and the transformer's
  wavelengths. With at least one visibility and a not-a-number \<open>noise_if_add_noise_false\<close>
  it raises \<open>DataException\<close>.
\<close>

theorem from_image_without_noise:
  assumes "noise_sigma sim = None"
    and "transformer_class sim (sim_uv_wavelengths sim) (array_mask ops img) = Inr transformer"
    and "array_add ops img
           (case background_sky_map sim of
              Some sky \<Rightarrow> sky
            | None \<Rightarrow> array_zeros ops (array_shape_2d ops img) (array_pixel_scales ops img))
         = Inr added"
    and "object_visibilities_from_image transformer added = Inr vis"
  shows "from_image ops isnan add_noise sim img nm
         = (if vis \<noteq> [] \<and> isnan (noise_if_add_noise_false sim) then Inl DataException
            else Inr \<lparr>data = vis,
                      noise_map = replicate (length vis)
                                    (noise_if_add_noise_false sim, noise_if_add_noise_false sim),
                      positions = None, name = nm,
                      uv_wavelengths = object_uv_wavelengths transformer\<rparr>)"
  using assms
  by (simp add: from_image_def Let_def any_isnan_full) (simp add: Visibilities_full_def)

theorem from_image_without_noise_witness:
  "from_image
     \<lparr>array_mask = (\<lambda>img. ()), array_shape_2d = (\<lambda>img. (1, length img)),
      array_pixel_scales = (\<lambda>img. (1 :: real, 1 :: real)),
      array_zeros = (\<lambda>(rows, cols) ps. replicate (rows * cols) (0 :: real)),
      array_add = (\<lambda>a b. if length a = length b then Inr (map (\<lambda>(x, y). x + y) (zip a b))
                           else Inl ValueError)\<rparr>
     float_isnan
     (\<lambda>vis sigma seed. vis)
     \<lparr>sim_uv_wavelengths = [(0 :: real, 0 :: real)], exposure_time_map = (),
      background_sky_map = None,
      transformer_class = (\<lambda>uv msk. Inr \<lparr>object_uv_wavelengths = uv,
         object_visibilities_from_image = (\<lambda>img. Inr (map (\<lambda>w. (Num (sum_list img), Num 0)) uv))\<rparr>),
      noise_sigma = None, noise_if_add_noise_false = Num (1 / 10), noise_seed = - 1\<rparr>
     [1, 2] None
   = (Inr \<lparr>data = [(Num 3, Num 0)], noise_map = [(Num (1 / 10), Num (1 / 10))],
           positions = None, name = None, uv_wavelengths = [(0, 0)]\<rparr>
       :: error + ((float \<times> float) list, (float \<times> float) list, (real \<times> real) list, unit) interferometer)"
  using from_image_without_noise
    [where sim = "\<lparr>sim_uv_wavelengths = [(0 :: real, 0 :: real)], exposure_time_map = (),
        background_sky_map = None,
        transformer_class = (\<lambda>uv msk. Inr \<lparr>object_uv_wavelengths = uv,
           object_visibilities_from_image =
             (\<lambda>img. Inr (map (\<lambda>w. (Num (sum_list img), Num 0)) uv))\<rparr>),
        noise_sigma = None, noise_if_add_noise_false = Num (1 / 10), noise_seed = - 1\<rparr>"
      and ops = "\<lparr>array_mask = (\<lambda>img. ()), array_shape_2d = (\<lambda>img. (1, length img)),
        array_pixel_scales = (\<lambda>img. (1 :: real, 1 :: real)),
        array_zeros = (\<lambda>(rows, cols) ps. replicate (rows * cols) (0 :: real)),
        array_add = (\<lambda>a b. if length a = length b then Inr (map (\<lambda>(x, y). x + y) (zip a b))
                           else Inl ValueError)\<rparr>"
      and img = "[1, 2]" and added = "[1, 2]"
      and transformer = "\<lparr>object_uv_wavelengths = [(0 :: real, 0 :: real)],
           object_visibilities_from_image =
             (\<lambda>img. Inr (map (\<lambda>w. (Num (sum_list img), Num 0)) [(0 :: real, 0 :: real)]))\<rparr>"
      and vis = "[(Num 3, Num 0)]"
      and isnan = float_isnan and add_noise = "\<lambda>vis sigma seed. vis" and nm = None]
  by simp


subsection \<open>Dataset subsystem: copying a dataset\<close>


lemma store_extends_length:
  "store_extends h h' \<Longrightarrow> length (array_objects h) \<le> length (array_objects h')"
  by (metis store_extends_def length_take min.cobounded1)

lemma store_extends_nth:
  "store_extends h h' \<Longrightarrow> i < length (array_objects h) \<Longrightarrow>
     array_objects h' ! i = array_objects h ! i"
  by (metis store_extends_def nth_take)


lemma fresh_copy_extends:
  "fresh_copy h0 h a b \<Longrightarrow> store_extends h h' \<Longrightarrow> fresh_copy h0 h' a b"
  using store_extends_length [of h h'] store_extends_nth [of h h' b]
  by (auto simp add: fresh_copy_def)

lemma memo_sound_extends:
  "memo_sound h0 h memo \<Longrightarrow> store_extends h h' \<Longrightarrow> memo_sound h0 h' memo"
  by (auto simp add: memo_sound_def dest: fresh_copy_extends)








end
